theory Spec2Isabelle
  imports Main
begin

section \<open>JavaScript strings and values used by the Git adapter\<close>

text \<open>
  A JavaScript string is modelled as a \<^typ>\<open>string\<close>, one \<^typ>\<open>char\<close> per code unit; the
  model covers code units below 256. The class \<open>\s\<close> of a JavaScript regular expression
  contains, in that range, TAB, LF, VT, FF, CR, SPACE and NBSP.
\<close>

definition is_space :: "char \<Rightarrow> bool" where
  "is_space c = (of_char c \<in> {9, 10, 11, 12, 13, 32, 160 :: nat})"

text \<open>
  \<open>s.split(sep)\<close> where \<open>sep\<close> matches exactly one code unit: the pieces between
  separators, empty pieces included; the empty string splits into one empty piece.
\<close>

fun split_on :: "(char \<Rightarrow> bool) \<Rightarrow> string \<Rightarrow> string list" where
  "split_on P [] = [[]]"
| "split_on P (c # cs) =
     (if P c then [] # split_on P cs
      else (case split_on P cs of
              [] \<Rightarrow> [[c]]
            | t # ts \<Rightarrow> (c # t) # ts))"

text \<open>\<open>x => !!x\<close> on a string: true exactly for the non-empty ones.\<close>

definition truthy_string :: "string \<Rightarrow> bool" where
  "truthy_string x = (x \<noteq> [])"

text \<open>
  \<open>x.replace('v', '')\<close>: a string pattern replaces its first occurrence only; the
  replacement is empty, so the first \<open>v\<close> is deleted.
\<close>

fun replace_v :: "string \<Rightarrow> string" where
  "replace_v [] = []"
| "replace_v (c # cs) = (if c = CHR ''v'' then cs else c # replace_v cs)"

text \<open>
  Errors are values. \<open>Error msg\<close> is \<open>new Error(msg)\<close>; \<open>TypeError p\<close> is the TypeError
  the engine raises when member \<open>p\<close> is read on \<open>undefined\<close> or \<open>null\<close>.
\<close>

datatype js_error = Error string | TypeError string

section \<open>Subprocesses\<close>

text \<open>
  \<open>spawnSync(command, args, {cwd, encoding})\<close> as data, and the fields of its result that
  the adapter reads. \<open>status\<close> is the exit code, or \<open>null\<close> (here \<open>None\<close>) when the process
  could not be spawned or was killed by a signal; \<open>stdout\<close> is \<open>null\<close> when the process
  could not be spawned; \<open>error\<close> is set when spawning failed.
\<close>

record spawn_call =
  command :: string
  args :: "string list"
  cwd :: string
  encoding :: "string option"

record spawn_result =
  status :: "int option"
  stdout :: "string option"
  error :: "string option"

text \<open>
  The world outside the program: what a subprocess answers, given every call made before
  it. A run threads the list of calls made so far.
\<close>

type_synonym process_env = "spawn_call list \<Rightarrow> spawn_call \<Rightarrow> spawn_result"

definition spawnSync :: "process_env \<Rightarrow> spawn_call \<Rightarrow> spawn_call list \<Rightarrow> spawn_result \<times> spawn_call list" where
  "spawnSync env c calls = (env calls c, calls @ [c])"

text \<open>
  Node validates a call before it spawns anything: when the command, an argument or the
  working directory holds a NUL code unit, \<open>spawnSync\<close> itself throws a TypeError and no
  subprocess exists. \<open>spawnSync\<close> above is the call that passes this validation; a
  statement about whether a method raises is made for \<open>spawnable\<close> calls only.
\<close>

definition nul_free :: "string \<Rightarrow> bool" where
  "nul_free s = (CHR 0x00 \<notin> set s)"

definition spawnable :: "spawn_call \<Rightarrow> bool" where
  "spawnable c = (nul_free (command c) \<and> list_all nul_free (args c) \<and> nul_free (cwd c))"

text \<open>\<open>if (result.status)\<close>: a number is truthy unless it is zero; \<open>null\<close> is falsy.\<close>

definition truthy_status :: "spawn_result \<Rightarrow> bool" where
  "truthy_status r = (case status r of None \<Rightarrow> False | Some n \<Rightarrow> n \<noteq> 0)"

section \<open>The Git adapter (src/git/git.js)\<close>

text \<open>Every method takes the object's \<open>dir\<close> field as the parameter \<open>dir\<close>.\<close>

definition add_call :: "string \<Rightarrow> string \<Rightarrow> spawn_call" where
  "add_call dir file = \<lparr>command = ''git'', args = [''add'', file], cwd = dir, encoding = None\<rparr>"

definition add :: "process_env \<Rightarrow> string \<Rightarrow> string \<Rightarrow> spawn_call list \<Rightarrow> (js_error + unit) \<times> spawn_call list" where
  "add env dir file calls =
     (let (result, calls') = spawnSync env (add_call dir file) calls
      in if truthy_status result then (Inl (Error ''Could not add''), calls')
         else (Inr (), calls'))"

definition tags_call :: "string \<Rightarrow> spawn_call" where
  "tags_call dir =
     \<lparr>command = ''git'', args = [''tag'', ''--sort=-v:refname''], cwd = dir, encoding = Some ''utf8''\<rparr>"

definition versionExists :: "process_env \<Rightarrow> string \<Rightarrow> string \<Rightarrow> spawn_call list \<Rightarrow> (js_error + bool) \<times> spawn_call list" where
  "versionExists env dir version calls =
     (let (result, calls') = spawnSync env (tags_call dir) calls
      in if truthy_status result then (Inl (Error ''Could not get git tags''), calls')
         else (case stdout result of
                 None \<Rightarrow> (Inl (TypeError ''split''), calls')
               | Some out \<Rightarrow>
                   (Inr (version \<in> set (map replace_v (filter truthy_string (split_on is_space out)))),
                    calls')))"

definition latestVersion :: "process_env \<Rightarrow> string \<Rightarrow> spawn_call list \<Rightarrow> (js_error + string) \<times> spawn_call list" where
  "latestVersion env dir calls =
     (let (result, calls') = spawnSync env (tags_call dir) calls
      in if truthy_status result then (Inl (Error ''Could not get git tags''), calls')
         else (case stdout result of
                 None \<Rightarrow> (Inl (TypeError ''split''), calls')
               | Some out \<Rightarrow>
                   (case find truthy_string (split_on is_space out) of
                      None \<Rightarrow> (Inl (TypeError ''replace''), calls')
                    | Some x \<Rightarrow> (Inr (replace_v x), calls'))))"

definition commit_call :: "string \<Rightarrow> string \<Rightarrow> spawn_call" where
  "commit_call dir message =
     \<lparr>command = ''git'', args = [''commit'', ''-m'', message], cwd = dir, encoding = None\<rparr>"

definition commit :: "process_env \<Rightarrow> string \<Rightarrow> string \<Rightarrow> spawn_call list \<Rightarrow> (js_error + unit) \<times> spawn_call list" where
  "commit env dir message calls =
     (let (result, calls') = spawnSync env (commit_call dir message) calls
      in if truthy_status result then (Inl (Error ''Could not commit''), calls')
         else (Inr (), calls'))"

definition tag_call :: "string \<Rightarrow> string \<Rightarrow> spawn_call" where
  "tag_call dir version =
     \<lparr>command = ''git'',
      args = [''tag'', ''-m'', ''Releasing version '' @ version, ''v'' @ version],
      cwd = dir, encoding = None\<rparr>"

definition tag :: "process_env \<Rightarrow> string \<Rightarrow> string \<Rightarrow> spawn_call list \<Rightarrow> (js_error + unit) \<times> spawn_call list" where
  "tag env dir version calls =
     (let (result, calls') = spawnSync env (tag_call dir version) calls
      in if truthy_status result then (Inl (Error ''Could not tag''), calls')
         else (Inr (), calls'))"

definition push_call :: "string \<Rightarrow> spawn_call" where
  "push_call dir = \<lparr>command = ''git'', args = [''push'', ''--follow-tags''], cwd = dir, encoding = None\<rparr>"

definition push :: "process_env \<Rightarrow> string \<Rightarrow> spawn_call list \<Rightarrow> (js_error + unit) \<times> spawn_call list" where
  "push env dir calls =
     (let (result, calls') = spawnSync env (push_call dir) calls
      in if truthy_status result then (Inl (Error ''Could not push''), calls')
         else (Inr (), calls'))"

text \<open>An environment that gives the same answer to every call.\<close>

definition always :: "spawn_result \<Rightarrow> process_env" where
  "always r calls c = r"

definition exited :: "int \<Rightarrow> string \<Rightarrow> spawn_result" where
  "exited n out = \<lparr>status = Some n, stdout = Some out, error = None\<rparr>"

definition spawn_failed :: "string \<Rightarrow> spawn_result" where
  "spawn_failed e = \<lparr>status = None, stdout = None, error = Some e\<rparr>"

text \<open>What \<open>git tag\<close> prints: each tag name followed by a line feed.\<close>

definition tag_lines :: "string list \<Rightarrow> string" where
  "tag_lines ts = concat (map (\<lambda>t. t @ [CHR 0x0A]) ts)"

section \<open>SemVer values\<close>

text \<open>
  Modelled from the spec: the SemVer value type of \<open>validate-transition.js\<close>, a file
  of the repository that is missing from the sources at hand. A SemVer is a triple (major, minor, patch) of
  non-negative integers, built only from a string of the shape \<open><int>.<int>.<int>\<close> with
  nothing before or after; rendering is canonical decimal without leading zeros, and
  \<open><int>\<close> is read as such a numeral.
\<close>

type_synonym semver = "nat \<times> nat \<times> nat"

definition is_digit :: "char \<Rightarrow> bool" where
  "is_digit c = (48 \<le> (of_char c :: nat) \<and> (of_char c :: nat) \<le> 57)"

definition digit_val :: "char \<Rightarrow> nat" where
  "digit_val c = of_char c - 48"

definition digit_char :: "nat \<Rightarrow> char" where
  "digit_char d = char_of (48 + d)"

fun show_nat :: "nat \<Rightarrow> string" where
  "show_nat n =
     (if n < 10 then [digit_char n] else show_nat (n div 10) @ [digit_char (n mod 10)])"

definition digits_val :: "string \<Rightarrow> nat" where
  "digits_val s = foldl (\<lambda>acc c. 10 * acc + digit_val c) 0 s"

definition parse_int :: "string \<Rightarrow> nat option" where
  "parse_int s =
     (if s \<noteq> [] \<and> list_all is_digit s \<and> (length s = 1 \<or> hd s \<noteq> CHR ''0'')
      then Some (digits_val s) else None)"

definition is_dot :: "char \<Rightarrow> bool" where
  "is_dot c = (c = CHR ''.'')"

definition parse_semver :: "string \<Rightarrow> semver option" where
  "parse_semver s =
     (case split_on is_dot s of
        [a, b, c] \<Rightarrow>
          (case parse_int a of
             None \<Rightarrow> None
           | Some ma \<Rightarrow>
               (case parse_int b of
                  None \<Rightarrow> None
                | Some mi \<Rightarrow>
                    (case parse_int c of
                       None \<Rightarrow> None
                     | Some pa \<Rightarrow> Some (ma, mi, pa))))
      | _ \<Rightarrow> None)"

definition render :: "semver \<Rightarrow> string" where
  "render v = (case v of (ma, mi, pa) \<Rightarrow> show_nat ma @ ''.'' @ show_nat mi @ ''.'' @ show_nat pa)"

text \<open>Modelled from the spec: the three successors of the no-gap policy.\<close>

definition inc_patch :: "semver \<Rightarrow> semver" where
  "inc_patch v = (case v of (ma, mi, pa) \<Rightarrow> (ma, mi, pa + 1))"

definition inc_minor :: "semver \<Rightarrow> semver" where
  "inc_minor v = (case v of (ma, mi, pa) \<Rightarrow> (ma, mi + 1, 0))"

definition inc_major :: "semver \<Rightarrow> semver" where
  "inc_major v = (case v of (ma, mi, pa) \<Rightarrow> (ma + 1, 0, 0))"

section \<open>The transition validator\<close>

text \<open>
  The texts of the four failures, as the tests of \<open>validate-transition.test.js\<close> expect
  them.
\<close>

definition msg_required :: string where
  "msg_required = ''Please provide version''"

definition msg_existing_not_semver :: "string \<Rightarrow> string" where
  "msg_existing_not_semver cur = ''Existing version '' @ cur @ '' is not semver''"

definition msg_not_semver :: "string \<Rightarrow> string" where
  "msg_not_semver target = ''Version '' @ target @ '' is not semver''"

definition msg_not_allowed :: "string \<Rightarrow> string \<Rightarrow> string \<Rightarrow> string \<Rightarrow> string" where
  "msg_not_allowed target p mi ma =
     ''Version '' @ target @ '' is not allowed. Use one of '' @ p @ '', '' @ mi @ '', '' @ ma"

text \<open>
  Modelled from the spec: \<open>validateTransition\<close> of \<open>validate-transition.js\<close>, a file of
  the repository that is missing from the sources at hand (its tests are present). The cases are those of the
  spec's table, in the table's order; the failure texts are those of the tests.
\<close>

definition validateTransition :: "string \<Rightarrow> string \<Rightarrow> js_error + string" where
  "validateTransition currentVersion requestedTarget =
     (if requestedTarget = [] then Inl (Error msg_required)
      else (case parse_semver currentVersion of
              None \<Rightarrow> Inl (Error (msg_existing_not_semver currentVersion))
            | Some cur \<Rightarrow>
                if requestedTarget = ''patch'' then Inr (render (inc_patch cur))
                else if requestedTarget = ''minor'' then Inr (render (inc_minor cur))
                else if requestedTarget = ''major'' then Inr (render (inc_major cur))
                else (case parse_semver requestedTarget of
                        None \<Rightarrow> Inl (Error (msg_not_semver requestedTarget))
                      | Some t \<Rightarrow>
                          if t = inc_patch cur \<or> t = inc_minor cur \<or> t = inc_major cur
                          then Inr requestedTarget
                          else Inl (Error (msg_not_allowed requestedTarget
                                 (render (inc_patch cur)) (render (inc_minor cur))
                                 (render (inc_major cur)))))))"

section \<open>Resolving the current version, as the spec words it\<close>

text \<open>
  Modelled from the spec: step 1 of the release orchestrator, which is missing from the
  sources at hand. Strip the \<open>v\<close> prefix of every tag, keep the entries that parse as
  SemVer, take the maximum by SemVer ordering. \<open>None\<close> when no entry parses.
\<close>

definition strip_v_prefix :: "string \<Rightarrow> string" where
  "strip_v_prefix t = (case t of [] \<Rightarrow> [] | c # cs \<Rightarrow> if c = CHR ''v'' then cs else t)"

definition semver_less :: "semver \<Rightarrow> semver \<Rightarrow> bool" where
  "semver_less a b =
     (case a of (a1, a2, a3) \<Rightarrow> case b of (b1, b2, b3) \<Rightarrow>
        a1 < b1 \<or> (a1 = b1 \<and> (a2 < b2 \<or> (a2 = b2 \<and> a3 < b3))))"

definition semver_max :: "semver \<Rightarrow> semver \<Rightarrow> semver" where
  "semver_max a b = (if semver_less a b then b else a)"

definition parseable_versions :: "string list \<Rightarrow> semver list" where
  "parseable_versions tags = List.map_filter (\<lambda>t. parse_semver (strip_v_prefix t)) tags"

definition resolve_current :: "string list \<Rightarrow> string option" where
  "resolve_current tags =
     (case parseable_versions tags of
        [] \<Rightarrow> None
      | v # vs \<Rightarrow> Some (render (foldl semver_max v vs)))"

section \<open>The release orchestrator\<close>

text \<open>
  Modelled from the spec: the release orchestrator and the contract of its adapter and
  file rewriter, which are missing from the sources at hand. A mutation is a file
  rewrite or one of the four mutating adapter operations; a run returns its terminal
  state and the mutations it invoked, in order.
\<close>

datatype mutation =
    RewriteFile string string string
  | StageFile string
  | Commit string
  | CreateAnnotatedTag string string
  | PushWithTags

record adapter =
  listTags :: "js_error + string list"
  outcome :: "mutation list \<Rightarrow> mutation \<Rightarrow> js_error option"

record config =
  cfg_target :: string
  cfg_files :: "string list"
  cfg_modified :: "string \<Rightarrow> bool"
  cfg_message :: "string option"
  cfg_dry_run :: bool
  cfg_no_push :: bool

datatype release_error =
    ListTagsFailed js_error
  | NoTagFound
  | ValidationFailed js_error
  | StepFailed mutation js_error

datatype terminal = Completed string | Aborted release_error

text \<open>The steps run strictly in order; the first failure stops the run.\<close>

fun run_steps :: "adapter \<Rightarrow> mutation list \<Rightarrow> mutation list \<Rightarrow> release_error option \<times> mutation list" where
  "run_steps ad [] invoked = (None, invoked)"
| "run_steps ad (m # ms) invoked =
     (case outcome ad invoked m of
        Some e \<Rightarrow> (Some (StepFailed m e), invoked @ [m])
      | None \<Rightarrow> run_steps ad ms (invoked @ [m]))"

definition update_files :: "config \<Rightarrow> string \<Rightarrow> string \<Rightarrow> mutation list" where
  "update_files cfg cur next =
     concat (map (\<lambda>f. RewriteFile f cur next # (if cfg_modified cfg f then [StageFile f] else []))
                 (cfg_files cfg))"

definition release_message :: "string \<Rightarrow> string" where
  "release_message next = ''Releasing version '' @ next"

definition steps :: "config \<Rightarrow> string \<Rightarrow> string \<Rightarrow> mutation list" where
  "steps cfg cur next =
     update_files cfg cur next
     @ [Commit (case cfg_message cfg of None \<Rightarrow> release_message next | Some m \<Rightarrow> m),
        CreateAnnotatedTag (''v'' @ next) (release_message next)]
     @ (if cfg_no_push cfg then [] else [PushWithTags])"

definition release :: "adapter \<Rightarrow> config \<Rightarrow> terminal \<times> mutation list" where
  "release ad cfg =
     (case listTags ad of
        Inl e \<Rightarrow> (Aborted (ListTagsFailed e), [])
      | Inr tags \<Rightarrow>
          (case resolve_current tags of
             None \<Rightarrow> (Aborted NoTagFound, [])
           | Some cur \<Rightarrow>
               (case validateTransition cur (cfg_target cfg) of
                  Inl e \<Rightarrow> (Aborted (ValidationFailed e), [])
                | Inr next \<Rightarrow>
                    if cfg_dry_run cfg then (Completed next, [])
                    else (case run_steps ad (steps cfg cur next) [] of
                            (None, invoked) \<Rightarrow> (Completed next, invoked)
                          | (Some e, invoked) \<Rightarrow> (Aborted e, invoked)))))"

text \<open>An adapter whose mutating operations all succeed.\<close>

definition tags_adapter :: "string list \<Rightarrow> adapter" where
  "tags_adapter tags = \<lparr>listTags = Inr tags, outcome = (\<lambda>invoked m. None)\<rparr>"

definition plain_config :: "string \<Rightarrow> config" where
  "plain_config t =
     \<lparr>cfg_target = t, cfg_files = [''README.md''], cfg_modified = (\<lambda>f. True),
      cfg_message = None, cfg_dry_run = False, cfg_no_push = False\<rparr>"

section \<open>Decimal numerals: rendering and reading back\<close>

declare show_nat.simps [simp del]

lemma digit_val_digit_char: "d < 10 \<Longrightarrow> digit_val (digit_char d) = d"
  by (simp add: digit_val_def digit_char_def)

lemma is_digit_digit_char: "d < 10 \<Longrightarrow> is_digit (digit_char d)"
  by (simp add: is_digit_def digit_char_def)

lemma digit_char_zero_iff: "d < 10 \<Longrightarrow> digit_char d = CHR ''0'' \<longleftrightarrow> d = 0"
proof -
  assume d: "d < 10"
  have "digit_char d = CHR ''0'' \<longleftrightarrow> (of_char (digit_char d) :: nat) = of_char (CHR ''0'')"
    by (simp only: of_char_eq_iff)
  also have "\<dots> \<longleftrightarrow> d = 0"
    using d by (simp add: digit_char_def)
  finally show ?thesis .
qed

lemma show_nat_not_Nil: "show_nat n \<noteq> []"
  by (subst show_nat.simps) simp

lemma show_nat_digits: "list_all is_digit (show_nat n)"
proof (induction n rule: show_nat.induct)
  case (1 n)
  show ?case
  proof (cases "n < 10")
    case True
    then show ?thesis by (subst show_nat.simps) (simp add: is_digit_digit_char)
  next
    case False
    with 1 show ?thesis by (subst show_nat.simps) (simp add: is_digit_digit_char)
  qed
qed

lemma digits_val_snoc: "digits_val (s @ [c]) = 10 * digits_val s + digit_val c"
  by (simp add: digits_val_def)

lemma digits_val_show_nat: "digits_val (show_nat n) = n"
proof (induction n rule: show_nat.induct)
  case (1 n)
  show ?case
  proof (cases "n < 10")
    case True
    then show ?thesis
      by (subst show_nat.simps) (simp add: digits_val_def digit_val_digit_char)
  next
    case False
    with 1 have "digits_val (show_nat (n div 10)) = n div 10" by simp
    with False show ?thesis
      by (subst show_nat.simps) (simp add: digits_val_snoc digit_val_digit_char)
  qed
qed

lemma hd_show_nat: "0 < n \<Longrightarrow> hd (show_nat n) \<noteq> CHR ''0''"
proof (induction n rule: show_nat.induct)
  case (1 n)
  show ?case
  proof (cases "n < 10")
    case True
    with 1(2) show ?thesis
      by (subst show_nat.simps) (simp add: digit_char_zero_iff)
  next
    case False
    then have "0 < n div 10" by simp
    with 1 False have "hd (show_nat (n div 10)) \<noteq> CHR ''0''" by simp
    with False show ?thesis
      by (subst show_nat.simps) (simp add: show_nat_not_Nil)
  qed
qed

lemma show_nat_zero: "show_nat 0 = ''0''"
  by code_simp

lemma parse_int_show_nat: "parse_int (show_nat n) = Some n"
proof (cases "n = 0")
  case True
  then show ?thesis by (simp add: show_nat_zero parse_int_def is_digit_def digits_val_def digit_val_def)
next
  case False
  then have "hd (show_nat n) \<noteq> CHR ''0''" by (simp add: hd_show_nat)
  then show ?thesis
    by (simp add: parse_int_def show_nat_not_Nil show_nat_digits digits_val_show_nat)
qed

lemma split_on_not_Nil: "split_on P s \<noteq> []"
  by (induction s) (auto split: list.splits)

lemma split_on_single: "\<forall>c\<in>set a. \<not> P c \<Longrightarrow> split_on P a = [a]"
  by (induction a) auto

lemma split_on_append: "\<forall>c\<in>set a. \<not> P c \<Longrightarrow> P d \<Longrightarrow> split_on P (a @ d # rest) = a # split_on P rest"
  by (induction a) auto

lemma is_digit_not_dot: "is_digit c \<Longrightarrow> \<not> is_dot c"
  by (auto simp: is_digit_def is_dot_def)

lemma is_digit_not_space: "is_digit c \<Longrightarrow> \<not> is_space c"
  by (auto simp: is_digit_def is_space_def)

lemma show_nat_no_dot: "\<forall>c\<in>set (show_nat n). \<not> is_dot c"
  using show_nat_digits [of n] by (auto simp: list_all_iff is_digit_not_dot)

lemma split_render: "split_on is_dot (render (a, b, c)) = [show_nat a, show_nat b, show_nat c]"
proof -
  have d: "is_dot CHR ''.''" by (simp add: is_dot_def)
  have "split_on is_dot (show_nat a @ CHR ''.'' # (show_nat b @ CHR ''.'' # show_nat c))
      = show_nat a # split_on is_dot (show_nat b @ CHR ''.'' # show_nat c)"
    by (rule split_on_append [OF show_nat_no_dot d])
  also have "split_on is_dot (show_nat b @ CHR ''.'' # show_nat c) = show_nat b # split_on is_dot (show_nat c)"
    by (rule split_on_append [OF show_nat_no_dot d])
  also have "split_on is_dot (show_nat c) = [show_nat c]"
    by (rule split_on_single [OF show_nat_no_dot])
  finally show ?thesis by (simp add: render_def)
qed

lemma parse_semver_render: "parse_semver (render v) = Some v"
  by (cases v) (simp add: parse_semver_def split_render parse_int_show_nat)

section \<open>Splitting lines, finding the first tag\<close>

lemma lf_is_space: "is_space (CHR 0x0A)"
  by (simp add: is_space_def)

lemma split_tag_lines:
  assumes "\<forall>c\<in>set t. \<not> is_space c"
  shows "split_on is_space (tag_lines (t # ts)) = t # split_on is_space (tag_lines ts)"
proof -
  have "tag_lines (t # ts) = t @ CHR 0x0A # tag_lines ts"
    by (simp add: tag_lines_def)
  then show ?thesis
    using split_on_append [OF assms lf_is_space] by simp
qed

lemma split_tag_lines_all:
  "\<forall>t\<in>set ts. \<forall>c\<in>set t. \<not> is_space c \<Longrightarrow> split_on is_space (tag_lines ts) = ts @ [[]]"
proof (induction ts)
  case Nil
  show ?case by (simp add: tag_lines_def)
next
  case (Cons t ts)
  then show ?case by (simp add: split_tag_lines)
qed

lemma latestVersion_unfold:
  "latestVersion env dir calls =
     (if truthy_status (env calls (tags_call dir)) then Inl (Error ''Could not get git tags'')
      else (case stdout (env calls (tags_call dir)) of
              None \<Rightarrow> Inl (TypeError ''split'')
            | Some out \<Rightarrow>
                (case find truthy_string (split_on is_space out) of
                   None \<Rightarrow> Inl (TypeError ''replace'')
                 | Some x \<Rightarrow> Inr (replace_v x))),
      calls @ [tags_call dir])"
  by (simp add: latestVersion_def spawnSync_def split: option.splits)

lemma versionExists_unfold:
  "versionExists env dir version calls =
     (if truthy_status (env calls (tags_call dir)) then Inl (Error ''Could not get git tags'')
      else (case stdout (env calls (tags_call dir)) of
              None \<Rightarrow> Inl (TypeError ''split'')
            | Some out \<Rightarrow>
                Inr (version \<in> set (map replace_v (filter truthy_string (split_on is_space out))))),
      calls @ [tags_call dir])"
  by (simp add: versionExists_def spawnSync_def split: option.splits)

lemma latestVersion_first_line:
  assumes "\<not> truthy_status (env calls (tags_call dir))"
    and "stdout (env calls (tags_call dir)) = Some (tag_lines (t # ts))"
    and "t \<noteq> []" and "\<forall>c\<in>set t. \<not> is_space c"
  shows "fst (latestVersion env dir calls) = Inr (replace_v t)"
  using assms by (simp add: latestVersion_unfold split_tag_lines truthy_string_def)

lemma replace_v_first: "CHR ''v'' \<notin> set pre \<Longrightarrow> replace_v (pre @ CHR ''v'' # post) = pre @ post"
  by (induction pre) auto

lemma replace_v_none: "CHR ''v'' \<notin> set t \<Longrightarrow> replace_v t = t"
  by (induction t) auto

lemma blank_pieces: "list_all is_space out \<Longrightarrow> set (split_on is_space out) = {[]}"
  by (induction out) auto

lemma find_blank: "list_all is_space out \<Longrightarrow> find truthy_string (split_on is_space out) = None"
  using blank_pieces [of out] by (simp add: find_None_iff truthy_string_def)

lemma foldl_semver_max:
  "\<forall>w\<in>set ws. \<not> semver_less v w \<Longrightarrow> foldl semver_max v ws = v"
  by (induction ws) (auto simp: semver_max_def)

lemma render_no_space: "\<forall>c\<in>set (render v). \<not> is_space c"
proof -
  obtain a b c where v: "v = (a, b, c)" by (cases v)
  have d: "\<forall>x\<in>set (show_nat n). \<not> is_space x" for n
    using show_nat_digits [of n] by (auto simp: list_all_iff is_digit_not_space)
  have "\<not> is_space CHR ''.''" by (simp add: is_space_def)
  with d show ?thesis by (auto simp: v render_def)
qed

section \<open>The adapter methods, unfolded\<close>

lemma add_unfold:
  "add env dir file calls =
     (if truthy_status (env calls (add_call dir file)) then Inl (Error ''Could not add'') else Inr (),
      calls @ [add_call dir file])"
  by (simp add: add_def spawnSync_def)

lemma commit_unfold:
  "commit env dir msg calls =
     (if truthy_status (env calls (commit_call dir msg)) then Inl (Error ''Could not commit'') else Inr (),
      calls @ [commit_call dir msg])"
  by (simp add: commit_def spawnSync_def)

lemma tag_unfold:
  "tag env dir version calls =
     (if truthy_status (env calls (tag_call dir version)) then Inl (Error ''Could not tag'') else Inr (),
      calls @ [tag_call dir version])"
  by (simp add: tag_def spawnSync_def)

lemma push_unfold:
  "push env dir calls =
     (if truthy_status (env calls (push_call dir)) then Inl (Error ''Could not push'') else Inr (),
      calls @ [push_call dir])"
  by (simp add: push_def spawnSync_def)

lemma null_status_falsy: "status r = None \<Longrightarrow> \<not> truthy_status r"
  by (simp add: truthy_status_def)

lemma latestVersion_could_not_iff:
  "fst (latestVersion env dir calls) = Inl (Error ''Could not get git tags'')
     \<longleftrightarrow> truthy_status (env calls (tags_call dir))"
  by (simp add: latestVersion_unfold split: option.splits)

lemma versionExists_could_not_iff:
  "fst (versionExists env dir version calls) = Inl (Error ''Could not get git tags'')
     \<longleftrightarrow> truthy_status (env calls (tags_call dir))"
  by (simp add: versionExists_unfold split: option.splits)

section \<open>The validator on keywords and explicit targets\<close>

lemma parse_semver_keywords:
  "parse_semver [] = None" "parse_semver ''patch'' = None"
  "parse_semver ''minor'' = None" "parse_semver ''major'' = None"
  by code_simp+

lemma parsed_not_keyword:
  assumes "parse_semver s = Some v"
  shows "s \<noteq> [] \<and> s \<noteq> ''patch'' \<and> s \<noteq> ''minor'' \<and> s \<noteq> ''major''"
  using assms parse_semver_keywords by auto

lemma validateTransition_explicit:
  assumes "parse_semver cur = Some v" and "parse_semver target = Some t"
  shows "validateTransition cur target =
     (if t = inc_patch v \<or> t = inc_minor v \<or> t = inc_major v then Inr target
      else Inl (Error (msg_not_allowed target (render (inc_patch v)) (render (inc_minor v))
             (render (inc_major v)))))"
  using assms parsed_not_keyword [OF assms(2)] by (simp add: validateTransition_def)

section \<open>Claims about the transition validator\<close>

text \<open>
  C1. For every current version that parses as the SemVer \<open>(M, m, p)\<close>, the validator
  returns \<open>(M, m, p + 1)\<close> for the target \<open>patch\<close>, \<open>(M, m + 1, 0)\<close> for \<open>minor\<close> and
  \<open>(M + 1, 0, 0)\<close> for \<open>major\<close>, each rendered as a version string; and given that same
  version string as an explicit target, it returns it unchanged.
\<close>

theorem validateTransition_successors:
  assumes "parse_semver cur = Some (M, m, p)"
  shows "validateTransition cur ''patch'' = Inr (render (M, m, p + 1))
       \<and> validateTransition cur ''minor'' = Inr (render (M, m + 1, 0))
       \<and> validateTransition cur ''major'' = Inr (render (M + 1, 0, 0))
       \<and> validateTransition cur (render (M, m, p + 1)) = Inr (render (M, m, p + 1))
       \<and> validateTransition cur (render (M, m + 1, 0)) = Inr (render (M, m + 1, 0))
       \<and> validateTransition cur (render (M + 1, 0, 0)) = Inr (render (M + 1, 0, 0))"
proof -
  have sym: "validateTransition cur ''patch'' = Inr (render (M, m, p + 1))"
    "validateTransition cur ''minor'' = Inr (render (M, m + 1, 0))"
    "validateTransition cur ''major'' = Inr (render (M + 1, 0, 0))"
    using assms by (simp_all add: validateTransition_def inc_patch_def inc_minor_def inc_major_def)
  have ex: "validateTransition cur (render t) = Inr (render t)"
    if "t = inc_patch (M, m, p) \<or> t = inc_minor (M, m, p) \<or> t = inc_major (M, m, p)" for t
    using that validateTransition_explicit [OF assms parse_semver_render [of t]] by simp
  have "validateTransition cur (render (M, m, p + 1)) = Inr (render (M, m, p + 1))"
    by (rule ex) (simp add: inc_patch_def)
  moreover have "validateTransition cur (render (M, m + 1, 0)) = Inr (render (M, m + 1, 0))"
    by (rule ex) (simp add: inc_minor_def)
  moreover have "validateTransition cur (render (M + 1, 0, 0)) = Inr (render (M + 1, 0, 0))"
    by (rule ex) (simp add: inc_major_def)
  ultimately show ?thesis using sym by simp
qed

text \<open>
  C1 at the current version \<open>1.0.0\<close>: the six calls of the test file.
\<close>

theorem validateTransition_successors_witness:
  "parse_semver ''1.0.0'' = Some (1, 0, 0)
   \<and> validateTransition ''1.0.0'' ''patch'' = Inr ''1.0.1''
   \<and> validateTransition ''1.0.0'' ''minor'' = Inr ''1.1.0''
   \<and> validateTransition ''1.0.0'' ''major'' = Inr ''2.0.0''
   \<and> validateTransition ''1.0.0'' ''1.0.1'' = Inr ''1.0.1''
   \<and> validateTransition ''1.0.0'' ''1.1.0'' = Inr ''1.1.0''
   \<and> validateTransition ''1.0.0'' ''2.0.0'' = Inr ''2.0.0''"
proof -
  have h: "parse_semver ''1.0.0'' = Some (1, 0, 0)" by code_simp
  have r: "render (1, 0, 0 + 1) = ''1.0.1''" "render (1, 0 + 1, 0) = ''1.1.0''"
    "render (1 + 1, 0, 0) = ''2.0.0''" by code_simp+
  show ?thesis
    using validateTransition_successors [OF h] h unfolding r by simp
qed

text \<open>
  C2. For every current version that parses as SemVer and every explicit target that
  parses as SemVer but is none of the three successors of the current version (equal to
  it, below it, or skipping past it), the validator fails, and the failure text lists
  the three successors in the order patch, minor, major.
\<close>

theorem validateTransition_rejects_gap:
  assumes "parse_semver cur = Some v" and "parse_semver target = Some t"
    and "t \<noteq> inc_patch v" and "t \<noteq> inc_minor v" and "t \<noteq> inc_major v"
  shows "validateTransition cur target =
     Inl (Error (''Version '' @ target @ '' is not allowed. Use one of ''
        @ render (inc_patch v) @ '', '' @ render (inc_minor v) @ '', '' @ render (inc_major v)))"
  using validateTransition_explicit [OF assms(1,2)] assms(3-5)
  by (simp add: msg_not_allowed_def)

text \<open>
  C2 at the current version \<open>1.0.0\<close>: a skipped patch, the current version again, and
  a lower version.
\<close>

theorem validateTransition_rejects_gap_witness:
  "validateTransition ''1.0.0'' ''1.0.2'' =
     Inl (Error ''Version 1.0.2 is not allowed. Use one of 1.0.1, 1.1.0, 2.0.0'')
   \<and> validateTransition ''1.0.0'' ''1.0.0'' =
     Inl (Error ''Version 1.0.0 is not allowed. Use one of 1.0.1, 1.1.0, 2.0.0'')
   \<and> validateTransition ''1.0.0'' ''0.9.0'' =
     Inl (Error ''Version 0.9.0 is not allowed. Use one of 1.0.1, 1.1.0, 2.0.0'')"
proof -
  have c: "parse_semver ''1.0.0'' = Some (1, 0, 0)" by code_simp
  have t: "parse_semver ''1.0.2'' = Some (1, 0, 2)" "parse_semver ''0.9.0'' = Some (0, 9, 0)"
    by code_simp+
  have r: "render (inc_patch (1, 0, 0)) = ''1.0.1''" "render (inc_minor (1, 0, 0)) = ''1.1.0''"
    "render (inc_major (1, 0, 0)) = ''2.0.0''" by code_simp+
  have n: "(1, 0, 2) \<noteq> inc_patch (1, 0, 0)" "(1, 0, 2) \<noteq> inc_minor (1, 0, 0)"
    "(1, 0, 2) \<noteq> inc_major (1, 0, 0)"
    "(1, 0, 0) \<noteq> inc_patch (1, 0, 0)" "(1, 0, 0) \<noteq> inc_minor (1, 0, 0)"
    "(1, 0, 0) \<noteq> inc_major (1, 0, 0)"
    "(0, 9, 0) \<noteq> inc_patch (1, 0, 0)" "(0, 9, 0) \<noteq> inc_minor (1, 0, 0)"
    "(0, 9, 0) \<noteq> inc_major (1, 0, 0)"
    by (simp_all add: inc_patch_def inc_minor_def inc_major_def)
  show ?thesis
    using validateTransition_rejects_gap [OF c t(1) n(1,2,3)]
      validateTransition_rejects_gap [OF c c n(4,5,6)]
      validateTransition_rejects_gap [OF c t(2) n(7,8,9)]
    unfolding r by simp
qed

text \<open>
  C6. For every current version that does not parse as SemVer and every non-empty
  target, the validator fails and cites the current version as not SemVer, whatever the
  target is: the check of the current version comes before any check of the target's
  content.
\<close>

theorem validateTransition_current_not_semver:
  assumes "parse_semver cur = None" and "target \<noteq> []"
  shows "validateTransition cur target = Inl (Error (''Existing version '' @ cur @ '' is not semver''))"
  using assms by (simp add: validateTransition_def msg_existing_not_semver_def)

text \<open>
  C6 at the current version \<open>1.0.c\<close>, with a valid explicit target and with a keyword.
\<close>

theorem validateTransition_current_not_semver_witness:
  "parse_semver ''1.0.c'' = None \<and> ''1.0.1'' \<noteq> []
   \<and> validateTransition ''1.0.c'' ''1.0.1'' = Inl (Error ''Existing version 1.0.c is not semver'')
   \<and> validateTransition ''1.0.c'' ''patch'' = Inl (Error ''Existing version 1.0.c is not semver'')"
proof -
  have h: "parse_semver ''1.0.c'' = None" by code_simp
  have a: "''1.0.1'' \<noteq> []" and b: "''patch'' \<noteq> []" by simp_all
  show ?thesis
    using validateTransition_current_not_semver [OF h a]
      validateTransition_current_not_semver [OF h b] h by simp
qed

text \<open>
  C7. For every current version, SemVer or not, the validator fails on the empty target
  with the text that asks for a version.
\<close>

theorem validateTransition_empty_target:
  "validateTransition cur [] = Inl (Error ''Please provide version'')"
  by (simp add: validateTransition_def msg_required_def)

text \<open>
  C7 at a SemVer and at a non-SemVer current version.
\<close>

theorem validateTransition_empty_target_witness:
  "validateTransition ''1.0.0'' [] = Inl (Error ''Please provide version'')
   \<and> validateTransition ''not-semver'' [] = Inl (Error ''Please provide version'')"
  using validateTransition_empty_target [of "''1.0.0''"]
    validateTransition_empty_target [of "''not-semver''"] by simp

section \<open>Claims about the release orchestrator\<close>

text \<open>
  C3. In every run in which the current version is resolved and the validator fails on
  it, the run ends aborted with the validator's failure and has invoked no mutation: no
  file rewrite, no stage, commit, tag or push.
\<close>

theorem release_aborts_before_mutation:
  assumes "listTags ad = Inr tags" and "resolve_current tags = Some cur"
    and "validateTransition cur (cfg_target cfg) = Inl e"
  shows "release ad cfg = (Aborted (ValidationFailed e), [])"
  using assms by (simp add: release_def)

text \<open>
  C3 on the scenario of the spec: the only tag is \<open>v1.0.0\<close> and \<open>1.0.2\<close> is requested.
\<close>

theorem release_aborts_before_mutation_witness:
  "release (tags_adapter [''v1.0.0'']) (plain_config ''1.0.2'') =
     (Aborted (ValidationFailed
        (Error ''Version 1.0.2 is not allowed. Use one of 1.0.1, 1.1.0, 2.0.0'')), [])"
proof -
  have a: "listTags (tags_adapter [''v1.0.0'']) = Inr [''v1.0.0'']"
    by (simp add: tags_adapter_def)
  have b: "resolve_current [''v1.0.0''] = Some ''1.0.0''" by code_simp
  have c: "validateTransition ''1.0.0'' (cfg_target (plain_config ''1.0.2'')) =
     Inl (Error ''Version 1.0.2 is not allowed. Use one of 1.0.1, 1.1.0, 2.0.0'')"
    by code_simp
  show ?thesis by (rule release_aborts_before_mutation [OF a b c])
qed

section \<open>Claims about the Git adapter\<close>

text \<open>
  C4, as stated, fails: \<open>latestVersion\<close> returns the first non-empty token of the output
  of the tag command with its first \<open>v\<close> deleted; it neither drops the entries that are
  not SemVer nor compares versions. With the tags \<open>vfoo\<close> and \<open>v1.0.0\<close>, listed in the
  descending order of their names, it returns \<open>foo\<close>, which is not a SemVer, where the
  maximum of the SemVer entries is \<open>1.0.0\<close>.
\<close>

theorem latestVersion_not_semver_max_counterexample:
  "fst (latestVersion (always (exited 0 (tag_lines [''vfoo'', ''v1.0.0'']))) ''.'' []) = Inr ''foo''
   \<and> parse_semver ''foo'' = None
   \<and> resolve_current [''vfoo'', ''v1.0.0''] = Some ''1.0.0''"
  by code_simp

text \<open>
  C4, amended. When the tag command succeeds and the first tag it prints is \<open>v\<close> followed
  by a SemVer that no SemVer among the other printed tags exceeds (the descending version
  order that \<open>--sort=-v:refname\<close> asks of git), \<open>latestVersion\<close> returns that SemVer, and
  it is the maximum by SemVer ordering of the stripped, SemVer-parseable tags.
\<close>

theorem latestVersion_max_when_listed_first:
  assumes "\<not> truthy_status (env calls (tags_call dir))"
    and "stdout (env calls (tags_call dir)) = Some (tag_lines (t # ts))"
    and "t = ''v'' @ render v"
    and "\<forall>w\<in>set (parseable_versions ts). \<not> semver_less v w"
  shows "fst (latestVersion env dir calls) = Inr (render v)
       \<and> resolve_current (t # ts) = Some (render v)"
proof -
  have ns: "\<forall>c\<in>set t. \<not> is_space c"
    using render_no_space [of v] by (simp add: assms(3) is_space_def)
  have ne: "t \<noteq> []" by (simp add: assms(3))
  have "fst (latestVersion env dir calls) = Inr (replace_v t)"
    using latestVersion_first_line [of env calls dir t ts] assms(1,2) ne ns by simp
  then have code: "fst (latestVersion env dir calls) = Inr (render v)"
    by (simp add: assms(3))
  have "parse_semver (strip_v_prefix t) = Some v"
    by (simp add: assms(3) strip_v_prefix_def parse_semver_render)
  then have "parseable_versions (t # ts) = v # parseable_versions ts"
    by (simp add: parseable_versions_def map_filter_simps)
  then have "resolve_current (t # ts) = Some (render v)"
    using foldl_semver_max [OF assms(4)] by (simp add: resolve_current_def)
  with code show ?thesis by simp
qed

text \<open>
  C4, amended, on the tags \<open>v1.2.3\<close>, \<open>v1.1.0\<close>, \<open>v1.0.0\<close> printed in that order.
\<close>

theorem latestVersion_max_when_listed_first_witness:
  "fst (latestVersion (always (exited 0 (tag_lines [''v1.2.3'', ''v1.1.0'', ''v1.0.0'']))) ''.'' [])
     = Inr ''1.2.3''
   \<and> resolve_current [''v1.2.3'', ''v1.1.0'', ''v1.0.0''] = Some ''1.2.3''"
proof -
  let ?env = "always (exited 0 (tag_lines [''v1.2.3'', ''v1.1.0'', ''v1.0.0'']))"
  have a: "\<not> truthy_status (?env [] (tags_call ''.''))"
    by (simp add: always_def exited_def truthy_status_def)
  have b: "stdout (?env [] (tags_call ''.'')) = Some (tag_lines [''v1.2.3'', ''v1.1.0'', ''v1.0.0''])"
    by (simp add: always_def exited_def)
  have r: "render (1, 2, 3) = ''1.2.3''" by code_simp
  have c: "''v1.2.3'' = ''v'' @ render (1, 2, 3)" unfolding r by simp
  have d: "\<forall>w\<in>set (parseable_versions [''v1.1.0'', ''v1.0.0'']). \<not> semver_less (1, 2, 3) w"
    by code_simp
  have "fst (latestVersion ?env ''.'' []) = Inr (render (1, 2, 3))
      \<and> resolve_current [''v1.2.3'', ''v1.1.0'', ''v1.0.0''] = Some (render (1, 2, 3))"
    by (rule latestVersion_max_when_listed_first
      [of ?env "[]" "''.''" "''v1.2.3''" "[''v1.1.0'', ''v1.0.0'']" "(1, 2, 3)", OF a b c d])
  then show ?thesis unfolding r .
qed

text \<open>
  C5. When the tag command succeeds and prints no tag (its output is empty or blank),
  \<open>latestVersion\<close> fails: \<open>find\<close> returns \<open>undefined\<close> and reading \<open>replace\<close> on it raises a
  TypeError, which is neither of the two "not semver" failures of the validator.
\<close>

theorem latestVersion_no_tags:
  assumes "\<not> truthy_status (env calls (tags_call dir))"
    and "stdout (env calls (tags_call dir)) = Some out"
    and "list_all is_space out"
  shows "fst (latestVersion env dir calls) = Inl (TypeError ''replace'')
       \<and> fst (latestVersion env dir calls) \<noteq> Inl (Error (msg_existing_not_semver x))
       \<and> fst (latestVersion env dir calls) \<noteq> Inl (Error (msg_not_semver y))"
  using assms by (simp add: latestVersion_unfold find_blank)

text \<open>
  C5 on the empty output of a repository without tags.
\<close>

theorem latestVersion_no_tags_witness:
  "fst (latestVersion (always (exited 0 [])) ''.'' []) = Inl (TypeError ''replace'')
   \<and> fst (latestVersion (always (exited 0 [])) ''.'' []) \<noteq> Inl (Error (msg_existing_not_semver []))
   \<and> fst (latestVersion (always (exited 0 [])) ''.'' []) \<noteq> Inl (Error (msg_not_semver []))"
proof -
  have a: "\<not> truthy_status (always (exited 0 []) [] (tags_call ''.''))"
    by (simp add: always_def exited_def truthy_status_def)
  have b: "stdout (always (exited 0 []) [] (tags_call ''.'')) = Some []"
    by (simp add: always_def exited_def)
  have c: "list_all is_space []" by simp
  show ?thesis
    by (rule latestVersion_no_tags [of "always (exited 0 [])" "[]" "''.''" "[]" "[]" "[]", OF a b c])
qed

text \<open>
  C8. For every version \<open>X\<close>, \<open>tag\<close> spawns exactly one subprocess,
  \<open>git tag -m "Releasing version X" vX\<close> in the adapter's directory: an annotated tag
  named \<open>v\<close> followed by \<open>X\<close>, with the message \<open>Releasing version X\<close>. It fails exactly when
  that subprocess has a truthy exit status.
\<close>

theorem tag_spawns_annotated_tag:
  "tag env dir version calls =
     (if truthy_status (env calls (tag_call dir version)) then Inl (Error ''Could not tag'') else Inr (),
      calls @ [\<lparr>command = ''git'',
                args = [''tag'', ''-m'', ''Releasing version '' @ version, ''v'' @ version],
                cwd = dir, encoding = None\<rparr>])"
  by (simp add: tag_def spawnSync_def tag_call_def)

text \<open>
  C8 on the version \<open>1.1.0\<close>.
\<close>

theorem tag_spawns_annotated_tag_witness:
  "tag (always (exited 0 [])) ''.'' ''1.1.0'' [] =
     (Inr (), [\<lparr>command = ''git'', args = [''tag'', ''-m'', ''Releasing version 1.1.0'', ''v1.1.0''],
                 cwd = ''.'', encoding = None\<rparr>])"
proof -
  have "\<not> truthy_status (always (exited 0 []) [] (tag_call ''.'' ''1.1.0''))"
    by (simp add: always_def exited_def truthy_status_def)
  then show ?thesis
    using tag_spawns_annotated_tag [of "always (exited 0 [])" "''.''" "''1.1.0''" "[]"] by simp
qed

text \<open>
  C9, as stated, fails for the two queries: with exit status 0 and an empty output
  \<open>latestVersion\<close> raises, and with a subprocess that could not be spawned (status and
  output \<open>null\<close>) \<open>versionExists\<close> raises, although neither status is truthy.
\<close>

theorem queries_raise_with_falsy_status_counterexample:
  "\<not> truthy_status (always (exited 0 []) [] (tags_call ''.''))
   \<and> isl (fst (latestVersion (always (exited 0 [])) ''.'' []))
   \<and> \<not> truthy_status (always (spawn_failed ''ENOENT'') [] (tags_call ''.''))
   \<and> isl (fst (versionExists (always (spawn_failed ''ENOENT'')) ''.'' ''1.0.0'' []))"
  by code_simp

text \<open>
  C9, amended. For calls that Node accepts (no NUL code unit in the command, the
  arguments or the working directory), \<open>add\<close>, \<open>commit\<close>, \<open>tag\<close> and \<open>push\<close> raise exactly
  when the exit status of their subprocess is truthy, so they return normally when the
  status is \<open>null\<close>; \<open>latestVersion\<close> and \<open>versionExists\<close> raise their error
  "Could not get git tags" exactly when the exit status is truthy.
\<close>

theorem git_operations_raise_on_truthy_status:
  assumes "spawnable (add_call dir file)" and "spawnable (commit_call dir msg)"
    and "spawnable (tag_call dir version)" and "spawnable (push_call dir)"
    and "spawnable (tags_call dir)"
  shows
  "(isl (fst (add env dir file calls)) \<longleftrightarrow> truthy_status (env calls (add_call dir file)))
   \<and> (isl (fst (commit env dir msg calls)) \<longleftrightarrow> truthy_status (env calls (commit_call dir msg)))
   \<and> (isl (fst (tag env dir version calls)) \<longleftrightarrow> truthy_status (env calls (tag_call dir version)))
   \<and> (isl (fst (push env dir calls)) \<longleftrightarrow> truthy_status (env calls (push_call dir)))
   \<and> (status (env calls (add_call dir file)) = None \<longrightarrow> fst (add env dir file calls) = Inr ())
   \<and> (status (env calls (commit_call dir msg)) = None \<longrightarrow> fst (commit env dir msg calls) = Inr ())
   \<and> (status (env calls (tag_call dir version)) = None \<longrightarrow> fst (tag env dir version calls) = Inr ())
   \<and> (status (env calls (push_call dir)) = None \<longrightarrow> fst (push env dir calls) = Inr ())
   \<and> (fst (latestVersion env dir calls) = Inl (Error ''Could not get git tags'')
        \<longleftrightarrow> truthy_status (env calls (tags_call dir)))
   \<and> (fst (versionExists env dir v calls) = Inl (Error ''Could not get git tags'')
        \<longleftrightarrow> truthy_status (env calls (tags_call dir)))"
proof -
  have four: "isl (fst (add env dir file calls)) \<longleftrightarrow> truthy_status (env calls (add_call dir file))"
    "isl (fst (commit env dir msg calls)) \<longleftrightarrow> truthy_status (env calls (commit_call dir msg))"
    "isl (fst (tag env dir version calls)) \<longleftrightarrow> truthy_status (env calls (tag_call dir version))"
    "isl (fst (push env dir calls)) \<longleftrightarrow> truthy_status (env calls (push_call dir))"
    by (simp_all add: add_unfold commit_unfold tag_unfold push_unfold)
  have null: "status (env calls (add_call dir file)) = None \<longrightarrow> fst (add env dir file calls) = Inr ()"
    "status (env calls (commit_call dir msg)) = None \<longrightarrow> fst (commit env dir msg calls) = Inr ()"
    "status (env calls (tag_call dir version)) = None \<longrightarrow> fst (tag env dir version calls) = Inr ()"
    "status (env calls (push_call dir)) = None \<longrightarrow> fst (push env dir calls) = Inr ()"
    by (simp_all add: add_unfold commit_unfold tag_unfold push_unfold null_status_falsy)
  show ?thesis
    using four null latestVersion_could_not_iff [of env dir calls]
      versionExists_could_not_iff [of env dir v calls]
    by blast
qed

text \<open>
  C9, amended, on a subprocess that could not be spawned although every call is
  well-formed (git is not installed).
\<close>

theorem git_operations_raise_on_truthy_status_witness:
  "spawnable (add_call ''.'' ''README.md'')
   \<and> spawnable (commit_call ''.'' ''Releasing version 1.1.0'')
   \<and> spawnable (tag_call ''.'' ''1.1.0'')
   \<and> spawnable (push_call ''.'')
   \<and> spawnable (tags_call ''.'')
   \<and> status (always (spawn_failed ''ENOENT'') [] (add_call ''.'' ''README.md'')) = None
   \<and> fst (add (always (spawn_failed ''ENOENT'')) ''.'' ''README.md'' []) = Inr ()
   \<and> fst (commit (always (spawn_failed ''ENOENT'')) ''.'' ''Releasing version 1.1.0'' []) = Inr ()
   \<and> fst (tag (always (spawn_failed ''ENOENT'')) ''.'' ''1.1.0'' []) = Inr ()
   \<and> fst (push (always (spawn_failed ''ENOENT'')) ''.'' []) = Inr ()"
proof -
  let ?env = "always (spawn_failed ''ENOENT'')"
  have s: "status (?env [] c) = None" for c
    by (simp add: always_def spawn_failed_def)
  have h: "spawnable (add_call ''.'' ''README.md'')"
    "spawnable (commit_call ''.'' ''Releasing version 1.1.0'')"
    "spawnable (tag_call ''.'' ''1.1.0'')"
    "spawnable (push_call ''.'')"
    "spawnable (tags_call ''.'')"
    by code_simp+
  show ?thesis
    using git_operations_raise_on_truthy_status
      [where env = ?env and calls = "[]" and v = "[]", OF h]
    by (simp add: s h)
qed

text \<open>
  C10. The version that \<open>latestVersion\<close> returns for a tag, and the versions that
  \<open>versionExists\<close> searches, are the tags with \<open>replace_v\<close> applied; \<open>replace_v\<close> deletes the
  first \<open>v\<close> of the tag wherever it stands, so a tag whose first \<open>v\<close> is inside it loses
  that \<open>v\<close>, and a tag without \<open>v\<close> is returned as it is.
\<close>

theorem replace_v_removes_first_v_only:
  assumes "\<not> truthy_status (env calls (tags_call dir))"
    and "stdout (env calls (tags_call dir)) = Some (tag_lines (t # ts))"
    and "\<forall>x\<in>set (t # ts). x \<noteq> [] \<and> (\<forall>c\<in>set x. \<not> is_space c)"
  shows "fst (latestVersion env dir calls) = Inr (replace_v t)
       \<and> fst (versionExists env dir version calls) = Inr (version \<in> replace_v ` set (t # ts))
       \<and> (CHR ''v'' \<notin> set pre \<longrightarrow> replace_v (pre @ CHR ''v'' # post) = pre @ post)
       \<and> (CHR ''v'' \<notin> set u \<longrightarrow> replace_v u = u)"
proof -
  from assms(3) have t: "t \<noteq> []" "\<forall>c\<in>set t. \<not> is_space c" by simp_all
  have l: "fst (latestVersion env dir calls) = Inr (replace_v t)"
    using latestVersion_first_line [of env calls dir t ts] assms(1,2) t by simp
  from assms(3) have "\<forall>x\<in>set (t # ts). \<forall>c\<in>set x. \<not> is_space c" by simp
  then have "split_on is_space (tag_lines (t # ts)) = (t # ts) @ [[]]"
    by (rule split_tag_lines_all)
  moreover from assms(3) have "filter truthy_string ((t # ts) @ [[]]) = t # ts"
    by (simp add: truthy_string_def filter_id_conv)
  ultimately have e: "fst (versionExists env dir version calls) = Inr (version \<in> replace_v ` set (t # ts))"
    using assms(1,2) by (simp add: versionExists_unfold del: split_on.simps)
  from l e show ?thesis
    by (simp add: replace_v_first replace_v_none)
qed

text \<open>
  C10 on the tags \<open>rev1.0.0\<close> and \<open>1.0.0\<close>.
\<close>

theorem replace_v_removes_first_v_only_witness:
  "fst (latestVersion (always (exited 0 (tag_lines [''rev1.0.0'', ''1.0.0'']))) ''.'' []) = Inr ''re1.0.0''
   \<and> fst (versionExists (always (exited 0 (tag_lines [''rev1.0.0'', ''1.0.0'']))) ''.'' ''re1.0.0'' [])
       = Inr True
   \<and> replace_v ''rev1.0.0'' = ''re1.0.0''
   \<and> replace_v ''1.0.0'' = ''1.0.0''"
proof -
  let ?env = "always (exited 0 (tag_lines [''rev1.0.0'', ''1.0.0'']))"
  have a: "\<not> truthy_status (?env [] (tags_call ''.''))"
    by (simp add: always_def exited_def truthy_status_def)
  have b: "stdout (?env [] (tags_call ''.'')) = Some (tag_lines [''rev1.0.0'', ''1.0.0''])"
    by (simp add: always_def exited_def)
  have c: "\<forall>x\<in>set [''rev1.0.0'', ''1.0.0'']. x \<noteq> [] \<and> (\<forall>c\<in>set x. \<not> is_space c)"
    by code_simp
  have v1: "CHR ''v'' \<notin> set ''re''" and v2: "CHR ''v'' \<notin> set ''1.0.0''" by simp_all
  have r: "replace_v ''rev1.0.0'' = ''re1.0.0''" by simp
  have m: "(''re1.0.0'' \<in> replace_v ` set [''rev1.0.0'', ''1.0.0'']) = True" by simp
  have "fst (latestVersion ?env ''.'' []) = Inr (replace_v ''rev1.0.0'')
       \<and> fst (versionExists ?env ''.'' ''re1.0.0'' []) = Inr (''re1.0.0'' \<in> replace_v ` set [''rev1.0.0'', ''1.0.0''])
       \<and> (CHR ''v'' \<notin> set ''re'' \<longrightarrow> replace_v (''re'' @ CHR ''v'' # ''1.0.0'') = ''re'' @ ''1.0.0'')
       \<and> (CHR ''v'' \<notin> set ''1.0.0'' \<longrightarrow> replace_v ''1.0.0'' = ''1.0.0'')"
    by (rule replace_v_removes_first_v_only
      [of ?env "[]" "''.''" "''rev1.0.0''" "[''1.0.0'']" "''re1.0.0''" "''re''" "''1.0.0''" "''1.0.0''",
       OF a b c])
  then show ?thesis unfolding m r using v1 v2 by simp
qed

end
